theory Spec2Isabelle
  imports Complex_Main
begin

section \<open>The in-memory vector index (app/rag\_utils.py)\<close>

text \<open>
  Python exceptions: the HTTP error of the request handler, the errors NumPy and list
  indexing raise in \<open>query\<close>, and any other exception \<open>e\<close>, given by
  \<open>str(e)\<close>.
\<close>

datatype exn = HTTPException nat string | ValueError | IndexError | TypeError | Raised string

text \<open>
  A chunk is a LangChain document: its text and its metadata (a mapping that the code
  only carries along, here a list of key and value pairs).
\<close>

type_synonym metadata = "(string \<times> string) list"

record chunk =
  page_content :: string
  metadata :: metadata

text \<open>
  What the embedding model returns for a batch: a one-dimensional array, or a
  two-dimensional one given by its number of columns and its rows (so that the shape
  \<open>(0, d)\<close> of an empty batch keeps its \<open>d\<close>). The components are float64 in
  the source and real numbers here (no NaN, no rounding); the theorems below are about
  the number and the order of the results and use of the numbers only that they are
  totally ordered and that negation reverses the order; the scores of the samples are
  exact quotients. The model itself is a parameter \<open>encode\<close>; it returns
  \<open>Inl msg\<close> when it raises an exception with text \<open>msg\<close>.
\<close>

datatype ndarray = Array1 "real list" | Array2 nat "real list list"

type_synonym matrix = "nat \<times> real list list"

text \<open>\<open>_embed_texts\<close>: a one-dimensional answer becomes a single row.\<close>

definition embed_texts :: "(string list \<Rightarrow> string + ndarray) \<Rightarrow> string list \<Rightarrow> string + matrix" where
  "embed_texts encode ts =
     (case encode ts of
        Inl msg \<Rightarrow> Inl msg
      | Inr a \<Rightarrow>
          (case a of
             Array1 v \<Rightarrow> Inr (length v, [v])
           | Array2 d rows \<Rightarrow> Inr (d, rows)))"

definition l2norm :: "real list \<Rightarrow> real" where
  "l2norm v = sqrt (sum_list (map (\<lambda>x. x * x) v))"

definition dot :: "real list \<Rightarrow> real list \<Rightarrow> real" where
  "dot u v = sum_list (map2 (*) u v)"

record SimpleInMemoryIndex =
  texts :: "string list"
  metadatas :: "metadata list"
  embeddings :: matrix
  normed :: matrix

text \<open>
  \<open>SimpleInMemoryIndex.__init__\<close>. \<open>metadatas or [{} for _ in texts]\<close>
  replaces a missing or empty list; \<open>norms[norms == 0] = 1.0\<close> replaces every zero
  norm before the division.
\<close>

definition SimpleInMemoryIndex_init ::
  "(string list \<Rightarrow> string + ndarray) \<Rightarrow> string list \<Rightarrow> metadata list option
   \<Rightarrow> string + SimpleInMemoryIndex" where
  "SimpleInMemoryIndex_init encode ts ms =
     (case embed_texts encode ts of
        Inl msg \<Rightarrow> Inl msg
      | Inr e \<Rightarrow>
          (let norms = map l2norm (snd e);
               norms1 = map (\<lambda>n. if n = 0 then 1 else n) norms
           in Inr \<lparr>texts = ts,
                   metadatas = (case ms of
                                  None \<Rightarrow> map (\<lambda>t. []) ts
                                | Some l \<Rightarrow> if l = [] then map (\<lambda>t. []) ts else l),
                   embeddings = e,
                   normed = (fst e, map2 (\<lambda>r n. map (\<lambda>x. x / n) r) (snd e) norms1)\<rparr>))"

text \<open>The slice \<open>xs[:k]\<close> of Python, for a \<open>k\<close> of either sign.\<close>

definition py_take :: "int \<Rightarrow> 'a list \<Rightarrow> 'a list" where
  "py_take k xs = (if 0 \<le> k then take (nat k) xs else take (length xs - nat (- k)) xs)"

record result =
  result_text :: string
  score :: real
  result_metadata :: metadata

text \<open>
  The loop that builds \<open>results\<close>: \<open>self.texts[i]\<close> and \<open>self.metadatas[i]\<close>
  raise \<open>IndexError\<close> out of range.
\<close>

fun results_of :: "SimpleInMemoryIndex \<Rightarrow> real list \<Rightarrow> nat list \<Rightarrow> exn + result list" where
  "results_of idx sims [] = Inr []"
| "results_of idx sims (i # is) =
     (if i < length (texts idx) \<and> i < length (metadatas idx) then
        (case results_of idx sims is of
           Inl e \<Rightarrow> Inl e
         | Inr rs \<Rightarrow>
             Inr (\<lparr>result_text = texts idx ! i, score = sims ! i,
                   result_metadata = metadatas idx ! i\<rparr> # rs))
      else Inl IndexError)"

text \<open>
  \<open>(self.normed @ qnorm.T).squeeze()\<close> with the repair of a zero-dimensional result:
  the product of \<open>m\<close> rows with \<open>k\<close> query rows has shape \<open>(m, k)\<close>;
  \<open>squeeze\<close> drops every axis of length one, and a result without axes becomes a
  one-element vector.
\<close>

datatype sims = Sims1 "real list" | Sims2 "real list list"

definition squeeze :: "nat \<Rightarrow> real list list \<Rightarrow> sims" where
  "squeeze k p =
     (if k = 1 then Sims1 (map hd p)
      else if length p = 1 then Sims1 (hd p)
      else Sims2 p)"

text \<open>
  \<open>SimpleInMemoryIndex.query\<close>. \<open>np.argsort\<close> is called with its default
  \<open>kind\<close> (\<open>quicksort\<close>), which NumPy documents as not stable and implements by
  different algorithms on different processors; it is not code of this repository, so
  it is the parameter \<open>argsort\<close>, from a vector to a list of positions. The matrix product raises \<open>ValueError\<close> when
  the dimensions differ. When the similarities stay two-dimensional (the model returned
  other than one row for the query) \<open>int(i)\<close> raises \<open>TypeError\<close> on the first
  row of the slice.
\<close>

definition query ::
  "(real list \<Rightarrow> nat list) \<Rightarrow> (string list \<Rightarrow> string + ndarray) \<Rightarrow> SimpleInMemoryIndex
   \<Rightarrow> string \<Rightarrow> int \<Rightarrow> exn + result list" where
  "query argsort encode idx qtext top_k =
     (case embed_texts encode [qtext] of
        Inl msg \<Rightarrow> Inl (Raised msg)
      | Inr q_emb \<Rightarrow>
          (let qnorm = map (\<lambda>q. map (\<lambda>x. x / (l2norm q + 1 / 10 ^ 12)) q) (snd q_emb)
           in if fst (normed idx) \<noteq> fst q_emb then Inl ValueError
              else
                (case squeeze (length qnorm)
                        (map (\<lambda>r. map (\<lambda>q. dot r q) qnorm) (snd (normed idx))) of
                   Sims1 s \<Rightarrow> results_of idx s (py_take top_k (argsort (map uminus s)))
                 | Sims2 s2 \<Rightarrow> if py_take top_k s2 = [] then Inr [] else Inl TypeError)))"

text \<open>\<open>create_or_load_index\<close>; \<open>persist_dir\<close> is accepted and ignored.\<close>

definition create_or_load_index ::
  "(string list \<Rightarrow> string + ndarray) \<Rightarrow> chunk list \<Rightarrow> string option
   \<Rightarrow> string + SimpleInMemoryIndex" where
  "create_or_load_index encode chunks persist_dir =
     SimpleInMemoryIndex_init encode (map page_content chunks) (Some (map metadata chunks))"

text \<open>
  What NumPy promises of \<open>argsort\<close> whatever the kind: the positions of the vector,
  each once, in an order that sorts the values ascending.
\<close>

definition argsort_sorts :: "(real list \<Rightarrow> nat list) \<Rightarrow> bool" where
  "argsort_sorts argsort \<longleftrightarrow>
     (\<forall>xs. distinct (argsort xs) \<and> set (argsort xs) = {0..<length xs}
           \<and> sorted (map (\<lambda>i. xs ! i) (argsort xs)))"

text \<open>A sort that keeps this promise, for the samples.\<close>

definition stable_argsort :: "real list \<Rightarrow> nat list" where
  "stable_argsort xs = sort_key (\<lambda>i. xs ! i) [0..<length xs]"

subsection \<open>A sample index\<close>

text \<open>
  A model that embeds every text as the vector \<open>[1]\<close>, and two chunks with the
  index built from them.
\<close>

definition sample_encode :: "string list \<Rightarrow> string + ndarray" where
  "sample_encode ts = Inr (Array2 1 (map (\<lambda>t. [1]) ts))"

definition sample_chunks :: "chunk list" where
  "sample_chunks = [\<lparr>page_content = ''a'', metadata = []\<rparr>, \<lparr>page_content = ''b'', metadata = []\<rparr>]"

definition sample_index :: SimpleInMemoryIndex where
  "sample_index = \<lparr>texts = [''a'', ''b''], metadatas = [[], []],
                    embeddings = (1, [[1], [1]]), normed = (1, [[1], [1]])\<rparr>"

section \<open>The ingestion manifest (app/ingest\_api.py)\<close>

subsection \<open>Data\<close>

text \<open>
  A manifest entry is the dictionary built in \<open>ingest_version\<close>. The keys
  \<open>indexed_at\<close> and \<open>error\<close> are absent until the worker sets them
  (\<open>None\<close> is the absent key); \<open>index_path\<close> starts as JSON null
  (\<open>None\<close>). The key \<open>id\<close> is the field \<open>id_field\<close>.
\<close>

record entry =
  version :: string
  id_field :: string
  created_at :: string
  source :: string
  status :: string
  chunks_indexed :: nat
  index_path :: "string option"
  indexed_at :: "string option"
  error :: "string option"

record manifest =
  dataset_id :: string
  versions :: "entry list"

text \<open>The body of an ingest request (\<open>VersionIngestRequest\<close>).\<close>

record VersionIngestRequest =
  req_dataset_id :: string
  req_source :: string
  req_version :: "string option"
  req_upsert :: bool

text \<open>The JSON answer of \<open>ingest_version\<close>.\<close>

record response =
  message :: string
  resp_dataset_id :: string
  resp_version :: string
  task_id :: string

subsection \<open>The storage backend\<close>

text \<open>
  What \<open>s3.get_object\<close> followed by \<open>json.loads\<close> gives for a key:
  the stored manifest, the \<open>NoSuchKey\<close> error, or any other exception.
\<close>

datatype s3_reply = Body manifest | NoSuchKey | ClientError

text \<open>
  A file of the local disk holds a manifest as JSON, or something that \<open>open\<close>
  and \<open>json.load\<close> cannot read: then reading raises an exception with the given
  text.
\<close>

datatype file_content = Json manifest | Unreadable string

text \<open>
  How a write fails. \<open>BeforeOpen msg\<close>: \<open>os.makedirs\<close>, \<open>open\<close> or
  \<open>s3.put_object\<close> raises an exception with text \<open>msg\<close> and the storage is
  as it was. \<open>AfterOpen msg left\<close>: \<open>json.dump\<close> raises after
  \<open>open(path, "w")\<close> has truncated the file; what is left of the file (nothing, or
  a beginning of the JSON text) makes \<open>json.load\<close> raise \<open>left\<close>.
\<close>

datatype fault = BeforeOpen string | AfterOpen string string

text \<open>
  The world the module runs in: the module constant \<open>S3_BUCKET\<close>, the objects of
  the bucket by key, the files of the local disk by path, the outcome of each coming
  write (\<open>None\<close>: it succeeds; when the list is used up every write succeeds), and
  the background tasks scheduled so far, each
  \<open>(dataset_id, version, source, entry_id)\<close>.
\<close>

record world =
  S3_BUCKET :: string
  s3_objects :: "string \<Rightarrow> s3_reply"
  files :: "string \<Rightarrow> file_content option"
  put_faults :: "fault option list"
  tasks :: "(string \<times> string \<times> string \<times> string) list"

definition manifest_key :: "string \<Rightarrow> string" where
  "manifest_key ds = ''datasets/'' @ ds @ ''/manifest.json''"

definition local_path :: "string \<Rightarrow> string" where
  "local_path ds = ''./data/'' @ ds @ ''/manifest.json''"

text \<open>\<open>os.path.basename\<close>: what follows the last slash.\<close>

definition basename :: "string \<Rightarrow> string" where
  "basename p = rev (takeWhile (\<lambda>c. c \<noteq> CHR ''/'') (rev p))"

text \<open>
  \<open>_get_manifest_local\<close>: a missing file gives an empty manifest; an existing one
  is read with no \<open>try\<close> around it.
\<close>

definition get_manifest_local :: "world \<Rightarrow> string \<Rightarrow> string + manifest" where
  "get_manifest_local w path =
     (case files w path of
        None \<Rightarrow> Inr \<lparr>dataset_id = basename path, versions = []\<rparr>
      | Some f \<Rightarrow> (case f of Json m \<Rightarrow> Inr m | Unreadable msg \<Rightarrow> Inl msg))"

text \<open>
  \<open>get_manifest\<close>: the S3 branch turns every exception into an empty manifest, the
  local branch lets it pass.
\<close>

definition get_manifest :: "world \<Rightarrow> string \<Rightarrow> string + manifest" where
  "get_manifest w ds =
     (if S3_BUCKET w \<noteq> [] then
        (case s3_objects w (manifest_key ds) of
           Body m \<Rightarrow> Inr m
         | NoSuchKey \<Rightarrow> Inr \<lparr>dataset_id = ds, versions = []\<rparr>
         | ClientError \<Rightarrow> Inr \<lparr>dataset_id = ds, versions = []\<rparr>)
      else get_manifest_local w (local_path ds))"

text \<open>\<open>_put_manifest_local\<close>, under the outcome \<open>f\<close> of this write.\<close>

definition put_manifest_local ::
  "fault option \<Rightarrow> world \<Rightarrow> string \<Rightarrow> manifest \<Rightarrow> (string + unit) \<times> world" where
  "put_manifest_local f w path m =
     (case f of
        None \<Rightarrow> (Inr (), w\<lparr>files := (files w)(path := Some (Json m))\<rparr>)
      | Some ft \<Rightarrow>
          (case ft of
             BeforeOpen msg \<Rightarrow> (Inl msg, w)
           | AfterOpen msg left \<Rightarrow>
               (Inl msg, w\<lparr>files := (files w)(path := Some (Unreadable left))\<rparr>)))"

text \<open>
  \<open>put_manifest\<close>: the next outcome of \<open>put_faults\<close> is used up. An object of
  the bucket is replaced or left as it was, whatever the fault.
\<close>

definition put_manifest :: "world \<Rightarrow> string \<Rightarrow> manifest \<Rightarrow> (string + unit) \<times> world" where
  "put_manifest w ds m =
     (let f = (case put_faults w of [] \<Rightarrow> None | x # rest \<Rightarrow> x);
          w1 = w\<lparr>put_faults := tl (put_faults w)\<rparr>
      in if S3_BUCKET w1 \<noteq> [] then
           (case f of
              None \<Rightarrow> (Inr (), w1\<lparr>s3_objects := (s3_objects w1)(manifest_key ds := Body m)\<rparr>)
            | Some ft \<Rightarrow>
                (case ft of
                   BeforeOpen msg \<Rightarrow> (Inl msg, w1)
                 | AfterOpen msg left \<Rightarrow> (Inl msg, w1)))
         else put_manifest_local f w1 (local_path ds) m)"

subsection \<open>Submission: \<open>ingest_version\<close>\<close>

text \<open>
  \<open>req.version or utcnow().strftime(...)\<close>: a missing or empty version gives the
  timestamp label \<open>now_label\<close>.
\<close>

definition version_label :: "string \<Rightarrow> VersionIngestRequest \<Rightarrow> string" where
  "version_label now_label req =
     (case req_version req of
        None \<Rightarrow> now_label
      | Some v \<Rightarrow> if v = [] then now_label else v)"

definition new_entry :: "string \<Rightarrow> string \<Rightarrow> string \<Rightarrow> string \<Rightarrow> entry" where
  "new_entry ver uuid now_iso src =
     \<lparr>version = ver, id_field = uuid, created_at = now_iso, source = src,
      status = ''PENDING'', chunks_indexed = 0, index_path = None,
      indexed_at = None, error = None\<rparr>"

text \<open>
  The clock and the random identifier are inputs: \<open>now_label\<close> is the formatted
  time of the first \<open>utcnow()\<close>, \<open>uuid\<close> is \<open>str(uuid.uuid4())\<close> and
  \<open>now_iso\<close> the ISO time of the second \<open>utcnow()\<close>. An exception of
  \<open>get_manifest\<close> or \<open>put_manifest\<close> leaves the handler.
\<close>

definition ingest_version ::
  "string \<Rightarrow> string \<Rightarrow> string \<Rightarrow> world \<Rightarrow> VersionIngestRequest \<Rightarrow> (exn + response) \<times> world" where
  "ingest_version now_label uuid now_iso w req =
     (let ds = req_dataset_id req;
          ver = version_label now_label req
      in case get_manifest w ds of
           Inl msg \<Rightarrow> (Inl (Raised msg), w)
         | Inr m \<Rightarrow>
             if list_ex (\<lambda>v. version v = ver) (versions m) \<and> \<not> req_upsert req
             then (Inl (HTTPException 400 ''version exists; set upsert=true to overwrite''), w)
             else
               (let e = new_entry ver uuid now_iso (req_source req);
                    m' = m\<lparr>versions := filter (\<lambda>v. version v \<noteq> ver) (versions m) @ [e]\<rparr>
                in case put_manifest w ds m' of
                     (Inl msg, w') \<Rightarrow> (Inl (Raised msg), w')
                   | (Inr u, w') \<Rightarrow>
                       (Inr \<lparr>message = ''ingest started'', resp_dataset_id = ds,
                             resp_version = ver, task_id = id_field e\<rparr>,
                        w'\<lparr>tasks := tasks w' @ [(ds, ver, req_source req, id_field e)]\<rparr>)))"

subsection \<open>The background worker: \<open>_process_and_update_manifest\<close>\<close>

text \<open>
  The loader, the splitter and the embedding model are collaborators; each returns
  \<open>Inl msg\<close> when it raises an exception with text \<open>msg\<close>.
\<close>

record collaborators =
  load_text_file :: "string \<Rightarrow> string + chunk list"
  split_docs :: "chunk list \<Rightarrow> string + chunk list"
  encode :: "string list \<Rightarrow> string + ndarray"

definition index_dir :: "string \<Rightarrow> string \<Rightarrow> string" where
  "index_dir ds ver = ''/tmp/indexes/'' @ ds @ ''/'' @ ver"

text \<open>
  The loop of the \<open>try\<close> block over \<open>manifest["versions"]\<close>. It calls
  \<open>utcnow()\<close> once for each entry it marks: \<open>clock k\<close> is the ISO time of the
  call number \<open>k\<close> (from zero) of this run.
\<close>

fun mark_indexed ::
  "string \<Rightarrow> string \<Rightarrow> nat \<Rightarrow> string \<Rightarrow> (nat \<Rightarrow> string) \<Rightarrow> nat \<Rightarrow> entry list \<Rightarrow> entry list" where
  "mark_indexed ver eid n path clock k [] = []"
| "mark_indexed ver eid n path clock k (v # vs) =
     (if version v = ver \<and> id_field v = eid
      then v\<lparr>status := ''INDEXED'', chunks_indexed := n, index_path := Some path,
              indexed_at := Some (clock k)\<rparr>
           # mark_indexed ver eid n path clock (Suc k) vs
      else v # mark_indexed ver eid n path clock k vs)"

text \<open>The body of the loop of the handler.\<close>

definition set_failed :: "string \<Rightarrow> string \<Rightarrow> string \<Rightarrow> entry \<Rightarrow> entry" where
  "set_failed ver eid msg v =
     (if version v = ver \<and> id_field v = eid
      then v\<lparr>status := ''FAILED'', error := Some msg\<rparr>
      else v)"

text \<open>
  Lines 88 to 94: the source is loaded, split and indexed; the result is
  \<open>len(chunks)\<close>, or the text of the exception raised.
\<close>

definition pipeline :: "collaborators \<Rightarrow> string \<Rightarrow> string \<Rightarrow> string \<Rightarrow> string + nat" where
  "pipeline env ds ver src =
     (if take 5 src = ''s3://'' then
        Inl ''S3 source not supported in local dev; upload file to sample_docs/ and use local path for now''
      else
        (case load_text_file env src of
           Inl msg \<Rightarrow> Inl msg
         | Inr docs \<Rightarrow>
             (case split_docs env docs of
                Inl msg \<Rightarrow> Inl msg
              | Inr chunks \<Rightarrow>
                  (case create_or_load_index (encode env) chunks (Some (index_dir ds ver)) of
                     Inl msg \<Rightarrow> Inl msg
                   | Inr idx \<Rightarrow> Inr (length chunks)))))"

text \<open>The \<open>try\<close> block: every exception raised in it is its result \<open>Inl\<close>.\<close>

definition try_block ::
  "collaborators \<Rightarrow> (nat \<Rightarrow> string) \<Rightarrow> world \<Rightarrow> string \<Rightarrow> string \<Rightarrow> string \<Rightarrow> string
   \<Rightarrow> (string + unit) \<times> world" where
  "try_block env clock w ds ver src eid =
     (case pipeline env ds ver src of
        Inl msg \<Rightarrow> (Inl msg, w)
      | Inr n \<Rightarrow>
          (case get_manifest w ds of
             Inl msg \<Rightarrow> (Inl msg, w)
           | Inr m \<Rightarrow>
               put_manifest w ds
                 (m\<lparr>versions := mark_indexed ver eid n (index_dir ds ver) clock 0 (versions m)\<rparr>)))"

text \<open>
  The worker: the \<open>except Exception\<close> handler reads the manifest again, marks the
  entry and writes; what the handler itself raises (reading or writing) leaves the
  worker.
\<close>

definition process_and_update_manifest ::
  "collaborators \<Rightarrow> (nat \<Rightarrow> string) \<Rightarrow> world \<Rightarrow> string \<Rightarrow> string \<Rightarrow> string \<Rightarrow> string
   \<Rightarrow> (string + unit) \<times> world" where
  "process_and_update_manifest env clock w ds ver src eid =
     (case try_block env clock w ds ver src eid of
        (Inr u, w1) \<Rightarrow> (Inr u, w1)
      | (Inl msg, w1) \<Rightarrow>
          (case get_manifest w1 ds of
             Inl msg' \<Rightarrow> (Inl msg', w1)
           | Inr m \<Rightarrow>
               put_manifest w1 ds
                 (m\<lparr>versions := map (set_failed ver eid msg) (versions m)\<rparr>)))"

text \<open>The next write to the backend succeeds.\<close>

definition next_put_ok :: "world \<Rightarrow> bool" where
  "next_put_ok w = (case put_faults w of [] \<Rightarrow> True | x # rest \<Rightarrow> x = None)"

subsection \<open>A sample dataset\<close>

text \<open>
  The local backend holding one manifest, for the dataset \<open>docs\<close>, with the single
  pending entry \<open>v1\<close>; collaborators whose loader returns a given result, whose
  splitter returns the documents as they are and whose model is \<open>sample_encode\<close>;
  and a clock.
\<close>

definition sample_entry :: entry where
  "sample_entry =
     \<lparr>version = ''v1'', id_field = ''id-1'', created_at = ''t0'', source = ''sample.txt'',
      status = ''PENDING'', chunks_indexed = 0, index_path = None,
      indexed_at = None, error = None\<rparr>"

definition sample_world :: "fault option list \<Rightarrow> world" where
  "sample_world faults =
     \<lparr>S3_BUCKET = [], s3_objects = (\<lambda>k. NoSuchKey),
      files = (\<lambda>p. if p = local_path ''docs''
                    then Some (Json \<lparr>dataset_id = ''docs'', versions = [sample_entry]\<rparr>)
                    else None),
      put_faults = faults, tasks = []\<rparr>"

definition sample_env :: "string + chunk list \<Rightarrow> collaborators" where
  "sample_env loaded =
     \<lparr>load_text_file = (\<lambda>p. loaded), split_docs = (\<lambda>d. Inr d),
      encode = sample_encode\<rparr>"

definition sample_clock :: "nat \<Rightarrow> string" where
  "sample_clock k = (if k = 0 then ''t1'' else ''t2'')"

section \<open>Properties of the index\<close>

lemma stable_argsort_sorts: "argsort_sorts stable_argsort"
  by (simp add: argsort_sorts_def stable_argsort_def sorted_sort_key)

lemma sample_index_built: "create_or_load_index sample_encode sample_chunks None = Inr sample_index"
  by (simp add: create_or_load_index_def SimpleInMemoryIndex_init_def embed_texts_def
      sample_encode_def sample_chunks_def sample_index_def l2norm_def)

lemma create_or_load_index_fields:
  assumes "create_or_load_index enc chunks pd = Inr idx"
  shows "texts idx = map page_content chunks"
    and "metadatas idx = map metadata chunks"
    and "embed_texts enc (map page_content chunks) = Inr (embeddings idx)"
    and "fst (normed idx) = fst (embeddings idx)"
    and "length (snd (normed idx)) = length (snd (embeddings idx))"
  using assms
  by (auto simp: create_or_load_index_def SimpleInMemoryIndex_init_def Let_def
      split: sum.splits)

lemma results_of_in_range:
  "\<forall>i \<in> set js. i < length (texts idx) \<and> i < length (metadatas idx) \<Longrightarrow>
     results_of idx s js
       = Inr (map (\<lambda>i. \<lparr>result_text = texts idx ! i, score = s ! i,
                          result_metadata = metadatas idx ! i\<rparr>) js)"
  by (induction js) auto

lemma argsort_sorts_length: "argsort_sorts argsort \<Longrightarrow> length (argsort xs) = length xs"
proof -
  assume "argsort_sorts argsort"
  then have "distinct (argsort xs)" and "set (argsort xs) = {0..<length xs}"
    by (simp_all add: argsort_sorts_def)
  then show ?thesis using distinct_card [of "argsort xs"] by simp
qed

lemma set_py_take: "set (py_take k xs) \<subseteq> set xs"
  by (auto simp: py_take_def dest: in_set_takeD)

lemma length_py_take:
  "length (py_take k xs) = (if 0 \<le> k then min (nat k) (length xs) else length xs - nat (- k))"
  by (simp add: py_take_def min.commute)

lemma sorted_wrt_py_take: "sorted_wrt R xs \<Longrightarrow> sorted_wrt R (py_take k xs)"
  by (simp add: py_take_def sorted_wrt_take)

text \<open>The query on a well-formed index, with the query embedded as one row.\<close>

lemma query_one_row:
  assumes sorts: "argsort_sorts argsort"
    and built: "create_or_load_index enc chunks pd = Inr idx"
    and rows: "length (snd (embeddings idx)) = length chunks"
    and q: "embed_texts enc [qtext] = Inr (fst (embeddings idx), [qv])"
  shows "\<exists>s. length s = length chunks
           \<and> query argsort enc idx qtext top_k
               = Inr (map (\<lambda>i. \<lparr>result_text = texts idx ! i, score = s ! i,
                                  result_metadata = metadatas idx ! i\<rparr>)
                        (py_take top_k (argsort (map uminus s))))"
proof -
  let ?qn = "map (\<lambda>x. x / (l2norm qv + 1 / 10 ^ 12)) qv"
  let ?s = "map (\<lambda>r. dot r ?qn) (snd (normed idx))"
  let ?p = "argsort (map uminus ?s)"
  note f = create_or_load_index_fields [OF built]
  have len: "length ?s = length chunks" using f(5) rows by simp
  have run: "query argsort enc idx qtext top_k = results_of idx ?s (py_take top_k ?p)"
    using q f(4) by (simp add: query_def squeeze_def comp_def)
  have "set ?p = {0..<length (map uminus ?s)}"
    using sorts [unfolded argsort_sorts_def, rule_format, of "map uminus ?s"] by simp
  then have "set ?p = {0..<length chunks}" using len by simp
  then have "\<forall>i \<in> set (py_take top_k ?p). i < length (texts idx) \<and> i < length (metadatas idx)"
    using set_py_take [of top_k ?p] f(1,2) by auto
  from results_of_in_range [OF this, of ?s] run
  have "query argsort enc idx qtext top_k
      = Inr (map (\<lambda>i. \<lparr>result_text = texts idx ! i, score = ?s ! i,
                         result_metadata = metadatas idx ! i\<rparr>)
               (py_take top_k (argsort (map uminus ?s))))"
    by simp
  with len show ?thesis by blast
qed

text \<open>
  C7. An index built from \<open>n\<close> chunks, the model having returned one row for each,
  answers a query (embedded as one row of the same dimension) with exactly
  \<open>min(top_k, n)\<close> results, for every \<open>top_k\<close> of at least one.
\<close>

theorem query_length:
  assumes "argsort_sorts argsort"
    and "create_or_load_index enc chunks pd = Inr idx"
    and "length (snd (embeddings idx)) = length chunks"
    and "embed_texts enc [qtext] = Inr (fst (embeddings idx), [qv])"
    and "1 \<le> top_k"
  shows "\<exists>rs. query argsort enc idx qtext top_k = Inr rs
            \<and> int (length rs) = min top_k (int (length chunks))"
proof -
  from query_one_row [OF assms(1-4), of top_k]
  obtain s where len: "length s = length chunks"
    and run: "query argsort enc idx qtext top_k
               = Inr (map (\<lambda>i. \<lparr>result_text = texts idx ! i, score = s ! i,
                                  result_metadata = metadatas idx ! i\<rparr>)
                        (py_take top_k (argsort (map uminus s))))"
    by blast
  have "length (argsort (map uminus s)) = length chunks"
    using argsort_sorts_length [OF assms(1), of "map uminus s"] len by simp
  then have "int (length (py_take top_k (argsort (map uminus s)))) = min top_k (int (length chunks))"
    using assms(5) by (simp add: length_py_take)
  with run show ?thesis by simp
qed

theorem query_length_witness:
  "argsort_sorts stable_argsort
   \<and> create_or_load_index sample_encode sample_chunks None = Inr sample_index
   \<and> length (snd (embeddings sample_index)) = length sample_chunks
   \<and> embed_texts sample_encode [''q''] = Inr (fst (embeddings sample_index), [[1]])
   \<and> (\<exists>rs. query stable_argsort sample_encode sample_index ''q'' 5 = Inr rs \<and> int (length rs) = 2)"
proof -
  have h3: "length (snd (embeddings sample_index)) = length sample_chunks"
    by (simp add: sample_index_def sample_chunks_def)
  have h4: "embed_texts sample_encode [''q''] = Inr (fst (embeddings sample_index), [[1]])"
    by (simp add: embed_texts_def sample_encode_def sample_index_def)
  have h5: "(1::int) \<le> 5" by simp
  have "min (5::int) (int (length sample_chunks)) = 2" by (simp add: sample_chunks_def)
  with query_length [OF stable_argsort_sorts sample_index_built h3 h4 h5]
    stable_argsort_sorts sample_index_built h3 h4
  show ?thesis by simp
qed

text \<open>
  The results of a query are sorted by score descending, for every argsort that keeps
  NumPy's promise. Results with equal scores come in the order that argsort gives
  them: the code has no tie-break of its own.
\<close>

lemma query_sorted_by_score:
  assumes "argsort_sorts argsort"
    and "create_or_load_index enc chunks pd = Inr idx"
    and "length (snd (embeddings idx)) = length chunks"
    and "embed_texts enc [qtext] = Inr (fst (embeddings idx), [qv])"
  shows "\<exists>rs. query argsort enc idx qtext top_k = Inr rs
            \<and> sorted_wrt (\<lambda>a b. score b \<le> score a) rs"
proof -
  from query_one_row [OF assms, of top_k]
  obtain s where len: "length s = length chunks"
    and run: "query argsort enc idx qtext top_k
               = Inr (map (\<lambda>i. \<lparr>result_text = texts idx ! i, score = s ! i,
                                  result_metadata = metadatas idx ! i\<rparr>)
                        (py_take top_k (argsort (map uminus s))))"
    by blast
  let ?p = "argsort (map uminus s)"
  have p: "set ?p = {0..<length s}" and srt: "sorted (map (\<lambda>i. map uminus s ! i) ?p)"
    using assms(1) [unfolded argsort_sorts_def, rule_format, of "map uminus s"] by simp_all
  have "map (\<lambda>i. map uminus s ! i) ?p = map (\<lambda>i. - (s ! i)) ?p"
    using p by (intro map_cong) auto
  with srt have "sorted_wrt (\<lambda>i j. s ! j \<le> s ! i) ?p"
    by (simp add: sorted_wrt_map)
  then have "sorted_wrt (\<lambda>i j. s ! j \<le> s ! i) (py_take top_k ?p)"
    by (rule sorted_wrt_py_take)
  with run show ?thesis by (simp add: sorted_wrt_map)
qed

text \<open>
  C8. When the model returns a well-formed empty batch (no rows, \<open>d\<close> columns), an
  index is built from zero chunks, and every query whose embedding has the dimension
  \<open>d\<close> returns the empty list, whatever \<open>top_k\<close>.
\<close>

theorem query_empty_index:
  assumes "argsort_sorts argsort"
    and "enc [] = Inr (Array2 d [])"
    and "embed_texts enc [qtext] = Inr (d, qrows)"
  shows "\<exists>idx. create_or_load_index enc [] pd = Inr idx
             \<and> query argsort enc idx qtext top_k = Inr []"
proof -
  let ?idx = "\<lparr>texts = [], metadatas = [], embeddings = (d, []), normed = (d, [])\<rparr>"
  have built: "create_or_load_index enc [] pd = Inr ?idx"
    using assms(2)
    by (simp add: create_or_load_index_def SimpleInMemoryIndex_init_def embed_texts_def)
  have "set (argsort []) = {}"
    using assms(1) [unfolded argsort_sorts_def, rule_format, of "[]"] by simp
  then have nil: "argsort [] = []" by simp
  have "query argsort enc ?idx qtext top_k = Inr []"
    using assms(3) nil by (simp add: query_def squeeze_def py_take_def)
  with built show ?thesis by blast
qed

theorem query_empty_index_witness:
  "argsort_sorts stable_argsort
   \<and> sample_encode [] = Inr (Array2 1 [])
   \<and> embed_texts sample_encode [''q''] = Inr (1, [[1]])
   \<and> (\<exists>idx. create_or_load_index sample_encode [] None = Inr idx
          \<and> query stable_argsort sample_encode idx ''q'' 3 = Inr [])"
proof -
  have h2: "sample_encode [] = Inr (Array2 1 [])" by (simp add: sample_encode_def)
  have h3: "embed_texts sample_encode [''q''] = Inr (1, [[1]])"
    by (simp add: embed_texts_def sample_encode_def)
  from query_empty_index [OF stable_argsort_sorts h2 h3, of None 3] stable_argsort_sorts h2 h3
  show ?thesis by simp
qed

section \<open>Properties of the manifest\<close>

subsection \<open>Reading and writing\<close>

lemma basename_local_path: "basename (local_path ds) = ''manifest.json''"
  by (simp add: basename_def local_path_def)

lemma get_manifest_put_faults: "get_manifest (w\<lparr>put_faults := r\<rparr>) ds = get_manifest w ds"
  by (simp add: get_manifest_def get_manifest_local_def)

lemma get_manifest_tasks: "get_manifest (w\<lparr>tasks := t\<rparr>) ds = get_manifest w ds"
  by (simp add: get_manifest_def get_manifest_local_def)

lemma put_manifest_ok:
  "put_manifest w ds m = (Inr u, w') \<Longrightarrow> get_manifest w' ds = Inr m \<and> tasks w' = tasks w"
  by (auto simp: put_manifest_def put_manifest_local_def get_manifest_def get_manifest_local_def
      Let_def split: list.splits option.splits fault.splits if_splits)

text \<open>
  A write that raises leaves the manifest as it was, or (the local file, after
  \<open>open\<close>) unreadable.
\<close>

lemma put_manifest_raises:
  "put_manifest w ds m = (Inl msg, w') \<Longrightarrow>
     (get_manifest w' ds = get_manifest w ds \<or> (\<exists>t. get_manifest w' ds = Inl t))
     \<and> tasks w' = tasks w"
  by (auto simp: put_manifest_def put_manifest_local_def get_manifest_def get_manifest_local_def
      Let_def split: list.splits option.splits fault.splits if_splits)

lemma put_manifest_next_ok:
  "next_put_ok w \<Longrightarrow> \<exists>w'. put_manifest w ds m = (Inr (), w')"
  by (auto simp: put_manifest_def put_manifest_local_def next_put_ok_def Let_def
      split: list.splits option.splits)

lemma sample_manifest:
  "get_manifest (sample_world faults) ''docs''
     = Inr \<lparr>dataset_id = ''docs'', versions = [sample_entry]\<rparr>"
  by (simp add: get_manifest_def get_manifest_local_def sample_world_def)

lemma sample_world_fields:
  "S3_BUCKET (sample_world faults) = []" "put_faults (sample_world faults) = faults"
  "tasks (sample_world faults) = []"
  by (simp_all add: sample_world_def)

lemma sample_next_put_ok: "next_put_ok (sample_world [])"
  by (simp add: next_put_ok_def sample_world_def)

text \<open>
  C5. For a dataset with no manifest yet, \<open>get_manifest\<close> should return a manifest
  whose \<open>dataset_id\<close> is the requested one and whose \<open>versions\<close> is empty.
  With the local backend (\<open>S3_BUCKET\<close> empty) and no file for the dataset
  \<open>docs\<close>, the code returns the \<open>dataset_id\<close> \<open>manifest.json\<close>: the base
  name of the path, not the dataset.
\<close>

theorem get_manifest_local_missing_dataset_id:
  "get_manifest \<lparr>S3_BUCKET = [], s3_objects = (\<lambda>k. NoSuchKey), files = (\<lambda>p. None),
                  put_faults = [], tasks = []\<rparr> ''docs''
   = Inr \<lparr>dataset_id = ''manifest.json'', versions = []\<rparr>"
  by (simp add: get_manifest_def get_manifest_local_def basename_local_path)

text \<open>The S3 branch returns the requested dataset, whatever the error.\<close>

lemma get_manifest_s3_missing:
  "S3_BUCKET w \<noteq> [] \<Longrightarrow> (\<forall>m. s3_objects w (manifest_key ds) \<noteq> Body m) \<Longrightarrow>
     get_manifest w ds = Inr \<lparr>dataset_id = ds, versions = []\<rparr>"
  by (cases "s3_objects w (manifest_key ds)") (simp_all add: get_manifest_def)

subsection \<open>Submission\<close>

text \<open>
  C4. A submission fails with the duplicate-version error (HTTP 400) if and only if the
  manifest read for the dataset has an entry with the version label and \<open>upsert\<close>
  is false; then the world is left as it was: the manifest is not written and no
  background task is scheduled.
\<close>

theorem ingest_version_duplicate:
  "(fst (ingest_version now_label uuid now_iso w req)
      = Inl (HTTPException 400 ''version exists; set upsert=true to overwrite'')
    \<longleftrightarrow> (\<exists>m. get_manifest w (req_dataset_id req) = Inr m
            \<and> list_ex (\<lambda>v. version v = version_label now_label req) (versions m))
        \<and> \<not> req_upsert req)
   \<and> ((\<exists>m. get_manifest w (req_dataset_id req) = Inr m
            \<and> list_ex (\<lambda>v. version v = version_label now_label req) (versions m))
        \<and> \<not> req_upsert req
        \<longrightarrow> snd (ingest_version now_label uuid now_iso w req) = w)"
  by (auto simp: ingest_version_def Let_def split: prod.splits sum.splits)

theorem ingest_version_duplicate_witness:
  "get_manifest (sample_world []) ''docs'' = Inr \<lparr>dataset_id = ''docs'', versions = [sample_entry]\<rparr>
   \<and> list_ex (\<lambda>v. version v = ''v1'') [sample_entry]
   \<and> fst (ingest_version ''v20240101T000000'' ''id-2'' ''t2'' (sample_world [])
        \<lparr>req_dataset_id = ''docs'', req_source = ''sample.txt'', req_version = Some ''v1'',
         req_upsert = False\<rparr>)
     = Inl (HTTPException 400 ''version exists; set upsert=true to overwrite'')
   \<and> snd (ingest_version ''v20240101T000000'' ''id-2'' ''t2'' (sample_world [])
        \<lparr>req_dataset_id = ''docs'', req_source = ''sample.txt'', req_version = Some ''v1'',
         req_upsert = False\<rparr>)
     = sample_world []"
proof -
  have h: "list_ex (\<lambda>v. version v = ''v1'') [sample_entry]"
    by (simp add: sample_entry_def)
  from h sample_manifest [of "[]"]
    ingest_version_duplicate [of "''v20240101T000000''" "''id-2''" "''t2''" "sample_world []"
      "\<lparr>req_dataset_id = ''docs'', req_source = ''sample.txt'', req_version = Some ''v1'',
        req_upsert = False\<rparr>"]
  show ?thesis by (simp add: version_label_def)
qed

text \<open>
  C3. A submission with \<open>upsert\<close> true for a version label that already has an entry,
  once it completes, leaves exactly one entry with that label in the manifest: the
  entries of other labels in their order, then one new entry. The new entry is pending,
  its \<open>id\<close> is the identifier \<open>uuid4\<close> returned for this submission and its
  \<open>created_at\<close> the time read for it; nothing of it comes from the entry removed.
  When \<open>uuid4\<close> returns an identifier that no entry of the manifest carries, the new
  entry is the only one with its \<open>id\<close>.
\<close>

theorem ingest_version_upsert:
  assumes "req_upsert req"
    and "get_manifest w (req_dataset_id req) = Inr m"
    and "list_ex (\<lambda>v. version v = version_label now_label req) (versions m)"
    and "ingest_version now_label uuid now_iso w req = (Inr resp, w')"
  shows "\<exists>m'. get_manifest w' (req_dataset_id req) = Inr m'
           \<and> versions m'
               = filter (\<lambda>v. version v \<noteq> version_label now_label req) (versions m)
                 @ [\<lparr>version = version_label now_label req, id_field = uuid,
                      created_at = now_iso, source = req_source req, status = ''PENDING'',
                      chunks_indexed = 0, index_path = None, indexed_at = None,
                      error = None\<rparr>]
           \<and> length (filter (\<lambda>v. version v = version_label now_label req) (versions m')) = 1
           \<and> id_field (last (versions m')) = uuid
           \<and> created_at (last (versions m')) = now_iso
           \<and> status (last (versions m')) = ''PENDING''
           \<and> (uuid \<notin> id_field ` set (versions m)
                \<longrightarrow> length (filter (\<lambda>v. id_field v = uuid) (versions m')) = 1)"
proof -
  let ?ds = "req_dataset_id req" and ?ver = "version_label now_label req"
  let ?e = "new_entry ?ver uuid now_iso (req_source req)"
  let ?m' = "m\<lparr>versions := filter (\<lambda>v. version v \<noteq> ?ver) (versions m) @ [?e]\<rparr>"
  from assms(1,2,4) obtain u w1 where put: "put_manifest w ?ds ?m' = (Inr u, w1)"
    and w': "w' = w1\<lparr>tasks := tasks w1 @ [(?ds, ?ver, req_source req, id_field ?e)]\<rparr>"
    by (auto simp: ingest_version_def Let_def split: prod.splits sum.splits)
  have "get_manifest w1 ?ds = Inr ?m'" using put_manifest_ok [OF put] by simp
  with w' have m: "get_manifest w' ?ds = Inr ?m'" by (simp add: get_manifest_tasks)
  have "filter (\<lambda>v. version v = ?ver) (filter (\<lambda>v. version v \<noteq> ?ver) (versions m)) = []"
    by (simp add: filter_empty_conv)
  moreover have "filter (\<lambda>v. id_field v = uuid) (filter (\<lambda>v. version v \<noteq> ?ver) (versions m)) = []"
    if "uuid \<notin> id_field ` set (versions m)"
    using that by (auto simp: filter_empty_conv)
  ultimately show ?thesis using m by (simp add: new_entry_def)
qed

theorem ingest_version_upsert_witness:
  "get_manifest (sample_world []) ''docs'' = Inr \<lparr>dataset_id = ''docs'', versions = [sample_entry]\<rparr>
   \<and> list_ex (\<lambda>v. version v = ''v1'') [sample_entry]
   \<and> fst (ingest_version ''v20240101T000000'' ''id-2'' ''t2'' (sample_world [])
        \<lparr>req_dataset_id = ''docs'', req_source = ''other.txt'', req_version = Some ''v1'',
         req_upsert = True\<rparr>)
     = Inr \<lparr>message = ''ingest started'', resp_dataset_id = ''docs'', resp_version = ''v1'',
            task_id = ''id-2''\<rparr>
   \<and> (\<exists>m'. get_manifest (snd (ingest_version ''v20240101T000000'' ''id-2'' ''t2''
        (sample_world [])
        \<lparr>req_dataset_id = ''docs'', req_source = ''other.txt'', req_version = Some ''v1'',
         req_upsert = True\<rparr>)) ''docs'' = Inr m'
       \<and> versions m'
          = [\<lparr>version = ''v1'', id_field = ''id-2'', created_at = ''t2'', source = ''other.txt'',
              status = ''PENDING'', chunks_indexed = 0, index_path = None, indexed_at = None,
              error = None\<rparr>])"
proof -
  let ?req = "\<lparr>req_dataset_id = ''docs'', req_source = ''other.txt'', req_version = Some ''v1'',
         req_upsert = True\<rparr>"
  let ?run = "ingest_version ''v20240101T000000'' ''id-2'' ''t2'' (sample_world []) ?req"
  have h: "list_ex (\<lambda>v. version v = ''v1'') [sample_entry]"
    by (simp add: sample_entry_def)
  have r: "fst ?run = Inr \<lparr>message = ''ingest started'', resp_dataset_id = ''docs'',
      resp_version = ''v1'', task_id = ''id-2''\<rparr>"
    by (simp add: ingest_version_def Let_def version_label_def sample_manifest new_entry_def
        put_manifest_def put_manifest_local_def sample_world_fields sample_entry_def)
  then have run: "?run = (Inr \<lparr>message = ''ingest started'', resp_dataset_id = ''docs'',
      resp_version = ''v1'', task_id = ''id-2''\<rparr>, snd ?run)"
    by (metis prod.collapse)
  have u: "req_upsert ?req" by simp
  have g: "get_manifest (sample_world []) (req_dataset_id ?req)
      = Inr \<lparr>dataset_id = ''docs'', versions = [sample_entry]\<rparr>"
    by (simp add: sample_manifest)
  have l: "list_ex (\<lambda>v. version v = version_label ''v20240101T000000'' ?req)
      (versions \<lparr>dataset_id = ''docs'', versions = [sample_entry]\<rparr>)"
    by (simp add: version_label_def sample_entry_def)
  from ingest_version_upsert [OF u g l run] h r sample_manifest [of "[]"] show ?thesis
    by (auto simp: version_label_def sample_entry_def)
qed

subsection \<open>The worker\<close>

lemma length_mark_indexed: "length (mark_indexed ver eid n p clock k vs) = length vs"
  by (induction vs arbitrary: k) auto

lemma mark_indexed_nth:
  "i < length vs \<Longrightarrow>
     mark_indexed ver eid n p clock k vs ! i
       = (if version (vs ! i) = ver \<and> id_field (vs ! i) = eid
          then (vs ! i)\<lparr>status := ''INDEXED'', chunks_indexed := n, index_path := Some p,
                 indexed_at := Some (clock (k + length (filter (\<lambda>v. version v = ver \<and> id_field v = eid)
                                                       (take i vs))))\<rparr>
          else vs ! i)"
proof (induction vs arbitrary: k i)
  case Nil
  then show ?case by simp
next
  case (Cons v vs)
  show ?case
  proof (cases i)
    case 0
    then show ?thesis by simp
  next
    case (Suc j)
    with Cons.prems have "j < length vs" by simp
    from Cons.IH [OF this] Suc show ?thesis by simp
  qed
qed

lemma mark_indexed_none:
  "\<forall>v \<in> set vs. \<not> (version v = ver \<and> id_field v = eid) \<Longrightarrow>
     mark_indexed ver eid n p clock k vs = vs"
  by (induction vs arbitrary: k) auto

lemma set_failed_other:
  "\<not> (version v = ver \<and> id_field v = eid) \<Longrightarrow> set_failed ver eid msg v = v"
  by (auto simp: set_failed_def)

lemma set_failed_fields:
  "version (set_failed ver eid msg v) = version v \<and> id_field (set_failed ver eid msg v) = id_field v"
  by (simp add: set_failed_def)

lemma set_failed_match:
  "version v = ver \<Longrightarrow> id_field v = eid \<Longrightarrow>
     status (set_failed ver eid msg v) = ''FAILED'' \<and> error (set_failed ver eid msg v) = Some msg"
  by (simp add: set_failed_def)

text \<open>
  The \<open>try\<close> block raises exactly when the source is refused, a collaborator
  raises, the manifest cannot be read, or the write of the updated manifest raises.
\<close>

lemma try_block_raises_iff:
  "try_block env clock w ds ver src eid = (Inl msg, w1) \<longleftrightarrow>
     pipeline env ds ver src = Inl msg \<and> w1 = w
     \<or> (\<exists>n. pipeline env ds ver src = Inr n \<and> get_manifest w ds = Inl msg \<and> w1 = w)
     \<or> (\<exists>n m. pipeline env ds ver src = Inr n \<and> get_manifest w ds = Inr m
           \<and> put_manifest w ds
                (m\<lparr>versions := mark_indexed ver eid n (index_dir ds ver) clock 0 (versions m)\<rparr>)
              = (Inl msg, w1))"
  by (auto simp: try_block_def split: sum.splits)

lemma try_block_raises:
  assumes "try_block env clock w ds ver src eid = (Inl msg, w1)"
  shows "get_manifest w1 ds = get_manifest w ds \<or> (\<exists>t. get_manifest w1 ds = Inl t)"
  using assms unfolding try_block_raises_iff
  by (auto dest: put_manifest_raises)

lemma try_block_ok:
  assumes "try_block env clock w ds ver src eid = (Inr u, w1)"
  shows "\<exists>n m. pipeline env ds ver src = Inr n \<and> get_manifest w ds = Inr m \<and>
         get_manifest w1 ds = Inr (m\<lparr>versions :=
           mark_indexed ver eid n (index_dir ds ver) clock 0 (versions m)\<rparr>)"
  using assms
  by (auto simp: try_block_def split: sum.splits dest: put_manifest_ok)

text \<open>What the manifest can be after the worker, when it can be read.\<close>

lemma worker_manifest:
  assumes run: "process_and_update_manifest env clock w ds ver src eid = (r, w')"
    and after: "get_manifest w' ds = Inr m'"
  shows "\<exists>m. get_manifest w ds = Inr m \<and>
           (m' = m
            \<or> (\<exists>n. m' = m\<lparr>versions := mark_indexed ver eid n (index_dir ds ver) clock 0 (versions m)\<rparr>)
            \<or> (\<exists>msg. m' = m\<lparr>versions := map (set_failed ver eid msg) (versions m)\<rparr>))"
proof (cases "try_block env clock w ds ver src eid")
  case (Pair t w1)
  show ?thesis
  proof (cases t)
    case (Inr u)
    with Pair run have "w' = w1" by (simp add: process_and_update_manifest_def)
    with Pair Inr after try_block_ok [of env clock w ds ver src eid u w1] show ?thesis
      by auto
  next
    case (Inl msg)
    with Pair have tb: "try_block env clock w ds ver src eid = (Inl msg, w1)" by simp
    show ?thesis
    proof (cases "get_manifest w1 ds")
      case (Inl t)
      with tb run have "w' = w1" by (simp add: process_and_update_manifest_def)
      with Inl after show ?thesis by simp
    next
      case (Inr m)
      with try_block_raises [OF tb] have before: "get_manifest w ds = Inr m" by auto
      from tb Inr run
      have put: "put_manifest w1 ds (m\<lparr>versions := map (set_failed ver eid msg) (versions m)\<rparr>)
          = (r, w')"
        by (simp add: process_and_update_manifest_def)
      show ?thesis
      proof (cases r)
        case (Inl msg')
        with put put_manifest_raises [of w1 ds _ msg' w'] after Inr have "m' = m" by auto
        with before show ?thesis by simp
      next
        case (Inr u)
        with put put_manifest_ok [of w1 ds _ u w'] after
        have "m' = m\<lparr>versions := map (set_failed ver eid msg) (versions m)\<rparr>" by auto
        with before show ?thesis by blast
      qed
    qed
  qed
qed

text \<open>
  C6, as the code has it. Whenever the manifest can be read after the worker ran
  (whether the worker returned or raised), it differs from the manifest the worker
  found only in entries whose version and id are both the ones the worker was called
  with: it has the same \<open>dataset_id\<close> and as many entries, every entry that does
  not carry both values is the entry it was, and if no entry carries both the manifest
  is the one that was found.
\<close>

theorem worker_frame:
  assumes "get_manifest w ds = Inr m"
    and "get_manifest (snd (process_and_update_manifest env clock w ds ver src eid)) ds = Inr m'"
  shows "dataset_id m' = dataset_id m
       \<and> length (versions m') = length (versions m)
       \<and> (\<forall>i < length (versions m).
            \<not> (version (versions m ! i) = ver \<and> id_field (versions m ! i) = eid)
            \<longrightarrow> versions m' ! i = versions m ! i)
       \<and> ((\<forall>v \<in> set (versions m). \<not> (version v = ver \<and> id_field v = eid)) \<longrightarrow> m' = m)"
proof -
  obtain r w' where run: "process_and_update_manifest env clock w ds ver src eid = (r, w')"
    by (cases "process_and_update_manifest env clock w ds ver src eid") auto
  with assms(2) have after: "get_manifest w' ds = Inr m'" by simp
  from worker_manifest [OF run after] assms(1)
  consider "m' = m"
    | n where "m' = m\<lparr>versions := mark_indexed ver eid n (index_dir ds ver) clock 0 (versions m)\<rparr>"
    | msg where "m' = m\<lparr>versions := map (set_failed ver eid msg) (versions m)\<rparr>"
    by auto
  then show ?thesis
  proof cases
    case 1
    then show ?thesis by simp
  next
    case 2
    then show ?thesis
      by (simp add: length_mark_indexed mark_indexed_nth mark_indexed_none)
  next
    case 3
    have "map (set_failed ver eid msg) (versions m) = versions m"
      if "\<forall>v \<in> set (versions m). \<not> (version v = ver \<and> id_field v = eid)"
      using that by (simp add: map_idI set_failed_other)
    with 3 show ?thesis by (auto simp: set_failed_other)
  qed
qed

text \<open>
  A stale worker: it was started for the identifier \<open>id-0\<close> of a superseded entry,
  the manifest now holds the entry \<open>id-1\<close> for the same version.
\<close>

theorem worker_frame_witness:
  "get_manifest (sample_world []) ''docs'' = Inr \<lparr>dataset_id = ''docs'', versions = [sample_entry]\<rparr>
   \<and> id_field sample_entry = ''id-1''
   \<and> fst (process_and_update_manifest (sample_env (Inl ''No such file'')) sample_clock
        (sample_world []) ''docs'' ''v1'' ''sample.txt'' ''id-0'') = Inr ()
   \<and> get_manifest (snd (process_and_update_manifest (sample_env (Inl ''No such file''))
        sample_clock (sample_world []) ''docs'' ''v1'' ''sample.txt'' ''id-0'')) ''docs''
     = Inr \<lparr>dataset_id = ''docs'', versions = [sample_entry]\<rparr>"
proof -
  let ?run = "process_and_update_manifest (sample_env (Inl ''No such file'')) sample_clock
        (sample_world []) ''docs'' ''v1'' ''sample.txt'' ''id-0''"
  have r: "fst ?run = Inr ()"
    by (simp add: process_and_update_manifest_def try_block_def pipeline_def sample_env_def
        put_manifest_def put_manifest_local_def sample_world_def
        get_manifest_def get_manifest_local_def)
  have "\<exists>m'. get_manifest (snd ?run) ''docs'' = Inr m'"
    by (simp add: process_and_update_manifest_def try_block_def pipeline_def sample_env_def
        put_manifest_def put_manifest_local_def sample_world_def
        get_manifest_def get_manifest_local_def)
  then obtain m' where after: "get_manifest (snd ?run) ''docs'' = Inr m'" by blast
  have none: "\<forall>v \<in> set (versions \<lparr>dataset_id = ''docs'', versions = [sample_entry]\<rparr>).
      \<not> (version v = ''v1'' \<and> id_field v = ''id-0'')"
    by (simp add: sample_entry_def)
  from worker_frame [OF sample_manifest after] none
  have "m' = \<lparr>dataset_id = ''docs'', versions = [sample_entry]\<rparr>" by blast
  with after r sample_manifest [of "[]"] show ?thesis by (simp add: sample_entry_def)
qed

text \<open>
  C6, as the claim states it, fails. The same stale worker, when the write of its
  handler fails after \<open>open(path, "w")\<close>: no entry carries its id, yet the file is
  left truncated, the entry \<open>id-1\<close> is lost and the manifest can no longer be read.
\<close>

theorem stale_worker_truncates:
  "get_manifest (sample_world [Some (AfterOpen ''No space left on device''
        ''Expecting value: line 1 column 1 (char 0)'')]) ''docs''
     = Inr \<lparr>dataset_id = ''docs'', versions = [sample_entry]\<rparr>
   \<and> id_field sample_entry = ''id-1''
   \<and> fst (process_and_update_manifest (sample_env (Inl ''No such file'')) sample_clock
        (sample_world [Some (AfterOpen ''No space left on device''
           ''Expecting value: line 1 column 1 (char 0)'')])
        ''docs'' ''v1'' ''sample.txt'' ''id-0'') = Inl ''No space left on device''
   \<and> get_manifest (snd (process_and_update_manifest (sample_env (Inl ''No such file''))
        sample_clock (sample_world [Some (AfterOpen ''No space left on device''
           ''Expecting value: line 1 column 1 (char 0)'')])
        ''docs'' ''v1'' ''sample.txt'' ''id-0'')) ''docs''
     = Inl ''Expecting value: line 1 column 1 (char 0)''"
  by (simp add: process_and_update_manifest_def try_block_def pipeline_def sample_env_def
      put_manifest_def put_manifest_local_def sample_world_def
      get_manifest_def get_manifest_local_def sample_entry_def)

text \<open>
  C10. When the source is loaded, split and indexed, the manifest is read and the
  write succeeds, the worker returns normally and the manifest written has the same
  \<open>dataset_id\<close> and as many entries as the one read; an entry carrying the version
  and the id has the new \<open>status\<close>, \<open>chunks_indexed\<close>, \<open>index_path\<close> and
  \<open>indexed_at\<close> (the time of the clock call made for it) and is otherwise the
  entry read (so \<open>version\<close>, \<open>id\<close>, \<open>created_at\<close>, \<open>source\<close> and
  \<open>error\<close> are kept); every other entry is the entry read.
\<close>

theorem worker_success_fields:
  assumes "pipeline env ds ver src = Inr n"
    and "get_manifest w ds = Inr m"
    and "next_put_ok w"
  shows "fst (process_and_update_manifest env clock w ds ver src eid) = Inr ()
       \<and> (\<exists>m'. get_manifest (snd (process_and_update_manifest env clock w ds ver src eid)) ds
                  = Inr m'
            \<and> dataset_id m' = dataset_id m
            \<and> length (versions m') = length (versions m)
            \<and> (\<forall>i < length (versions m).
                 (let old = versions m ! i; new = versions m' ! i
                  in version new = version old \<and> id_field new = id_field old
                     \<and> created_at new = created_at old \<and> source new = source old
                     \<and> error new = error old
                     \<and> new = (if version old = ver \<and> id_field old = eid
                               then old\<lparr>status := ''INDEXED'', chunks_indexed := n,
                                        index_path := Some (index_dir ds ver),
                                        indexed_at := Some (clock (length (filter
                                          (\<lambda>v. version v = ver \<and> id_field v = eid)
                                          (take i (versions m)))))\<rparr>
                               else old))))"
proof -
  let ?m' = "m\<lparr>versions := mark_indexed ver eid n (index_dir ds ver) clock 0 (versions m)\<rparr>"
  obtain w' where put: "put_manifest w ds ?m' = (Inr (), w')"
    using put_manifest_next_ok [OF assms(3), of ds ?m'] by auto
  with assms(1,2) have "try_block env clock w ds ver src eid = (Inr (), w')"
    by (simp add: try_block_def)
  then have run: "process_and_update_manifest env clock w ds ver src eid = (Inr (), w')"
    by (simp add: process_and_update_manifest_def)
  have new: "get_manifest w' ds = Inr ?m'" using put_manifest_ok [OF put] by simp
  show ?thesis using run new
    by (simp add: Let_def length_mark_indexed mark_indexed_nth)
qed

lemma sample_pipeline:
  "pipeline (sample_env (Inr [\<lparr>page_content = ''a'', metadata = []\<rparr>])) ''docs'' ''v1''
      ''sample.txt'' = Inr 1"
  by (simp add: pipeline_def sample_env_def sample_encode_def create_or_load_index_def
      SimpleInMemoryIndex_init_def embed_texts_def)

theorem worker_success_fields_witness:
  "pipeline (sample_env (Inr [\<lparr>page_content = ''a'', metadata = []\<rparr>])) ''docs'' ''v1'' ''sample.txt''
     = Inr 1
   \<and> get_manifest (sample_world []) ''docs'' = Inr \<lparr>dataset_id = ''docs'', versions = [sample_entry]\<rparr>
   \<and> next_put_ok (sample_world [])
   \<and> fst (process_and_update_manifest (sample_env (Inr [\<lparr>page_content = ''a'', metadata = []\<rparr>]))
        sample_clock (sample_world []) ''docs'' ''v1'' ''sample.txt'' ''id-1'') = Inr ()
   \<and> (\<exists>m'. get_manifest (snd (process_and_update_manifest
        (sample_env (Inr [\<lparr>page_content = ''a'', metadata = []\<rparr>]))
        sample_clock (sample_world []) ''docs'' ''v1'' ''sample.txt'' ''id-1'')) ''docs'' = Inr m'
      \<and> length (versions m') = 1
      \<and> versions m' ! 0
        = \<lparr>version = ''v1'', id_field = ''id-1'', created_at = ''t0'', source = ''sample.txt'',
           status = ''INDEXED'', chunks_indexed = 1, index_path = Some ''/tmp/indexes/docs/v1'',
           indexed_at = Some ''t1'', error = None\<rparr>)"
proof -
  from worker_success_fields [OF sample_pipeline sample_manifest sample_next_put_ok,
      of sample_clock "''id-1''"]
    sample_pipeline sample_manifest [of "[]"] sample_next_put_ok
  show ?thesis
    by (auto simp: sample_entry_def index_dir_def sample_clock_def Let_def)
qed

text \<open>
  C2, as the code has it. Whenever the \<open>try\<close> block raises (the source is refused,
  the loader, the splitter or the model raises, or reading or writing the manifest
  raises), the manifest can then be read and the write of the handler succeeds, the
  worker returns normally; the manifest read by the handler is the one the worker
  found, and the manifest written is that manifest in which every entry carrying the
  version and the id has the status \<open>FAILED\<close> and, as its \<open>error\<close>, the text of
  the exception.
\<close>

theorem worker_failure_recorded:
  assumes "try_block env clock w ds ver src eid = (Inl msg, w1)"
    and "get_manifest w1 ds = Inr m"
    and "next_put_ok w1"
  shows "fst (process_and_update_manifest env clock w ds ver src eid) = Inr ()
       \<and> get_manifest w ds = Inr m
       \<and> get_manifest (snd (process_and_update_manifest env clock w ds ver src eid)) ds
           = Inr (m\<lparr>versions := map (set_failed ver eid msg) (versions m)\<rparr>)
       \<and> (\<forall>v \<in> set (map (set_failed ver eid msg) (versions m)).
             version v = ver \<and> id_field v = eid \<longrightarrow> status v = ''FAILED'' \<and> error v = Some msg)"
proof -
  let ?m' = "m\<lparr>versions := map (set_failed ver eid msg) (versions m)\<rparr>"
  have before: "get_manifest w ds = Inr m"
    using try_block_raises [OF assms(1)] assms(2) by auto
  obtain w' where put: "put_manifest w1 ds ?m' = (Inr (), w')"
    using put_manifest_next_ok [OF assms(3), of ds ?m'] by auto
  have run: "process_and_update_manifest env clock w ds ver src eid = (Inr (), w')"
    unfolding process_and_update_manifest_def using assms(1,2) put by simp
  have new: "get_manifest w' ds = Inr ?m'" using put_manifest_ok [OF put] by simp
  have marked: "status v = ''FAILED'' \<and> error v = Some msg"
    if v: "v \<in> set (map (set_failed ver eid msg) (versions m))"
      and hit: "version v = ver \<and> id_field v = eid" for v
  proof -
    from v obtain u where vu: "v = set_failed ver eid msg u" by auto
    from hit vu have "version u = ver" "id_field u = eid"
      by (simp_all add: set_failed_fields)
    then show ?thesis unfolding vu by (rule set_failed_match)
  qed
  show ?thesis using run new before marked by simp
qed

theorem worker_failure_recorded_witness:
  "try_block (sample_env (Inl ''No such file'')) sample_clock (sample_world []) ''docs'' ''v1''
       ''sample.txt'' ''id-1'' = (Inl ''No such file'', sample_world [])
   \<and> get_manifest (sample_world []) ''docs'' = Inr \<lparr>dataset_id = ''docs'', versions = [sample_entry]\<rparr>
   \<and> next_put_ok (sample_world [])
   \<and> fst (process_and_update_manifest (sample_env (Inl ''No such file'')) sample_clock
         (sample_world []) ''docs'' ''v1'' ''sample.txt'' ''id-1'') = Inr ()
   \<and> get_manifest (snd (process_and_update_manifest (sample_env (Inl ''No such file''))
           sample_clock (sample_world []) ''docs'' ''v1'' ''sample.txt'' ''id-1'')) ''docs''
      = Inr \<lparr>dataset_id = ''docs'',
             versions = [\<lparr>version = ''v1'', id_field = ''id-1'', created_at = ''t0'',
                          source = ''sample.txt'', status = ''FAILED'', chunks_indexed = 0,
                          index_path = None, indexed_at = None,
                          error = Some ''No such file''\<rparr>]\<rparr>"
proof -
  have h1: "try_block (sample_env (Inl ''No such file'')) sample_clock (sample_world []) ''docs''
       ''v1'' ''sample.txt'' ''id-1'' = (Inl ''No such file'', sample_world [])"
    by (simp add: try_block_def pipeline_def sample_env_def)
  from worker_failure_recorded [OF h1 sample_manifest sample_next_put_ok] h1
    sample_manifest [of "[]"] sample_next_put_ok
  show ?thesis
    by (simp add: set_failed_def sample_entry_def)
qed

text \<open>
  C2, as the claim states it, fails three times. First: the source is refused and the
  write of the handler raises \<open>AccessDenied\<close>; the exception leaves the worker and
  the entry stays \<open>PENDING\<close>. Second: the loader raises an exception whose text is
  empty; the \<open>error\<close> recorded is the empty string. Third: the write of the indexed
  manifest fails after \<open>open(path, "w")\<close>; the handler cannot read the truncated file,
  the decoding error leaves the worker and nothing is recorded.
\<close>

theorem worker_exception_escapes:
  "fst (process_and_update_manifest (sample_env (Inr [])) sample_clock
          (sample_world [Some (BeforeOpen ''AccessDenied'')]) ''docs'' ''v1''
          ''s3://bucket/doc.txt'' ''id-1'')
     = Inl ''AccessDenied''
   \<and> get_manifest (snd (process_and_update_manifest (sample_env (Inr [])) sample_clock
          (sample_world [Some (BeforeOpen ''AccessDenied'')]) ''docs'' ''v1''
          ''s3://bucket/doc.txt'' ''id-1'')) ''docs''
     = Inr \<lparr>dataset_id = ''docs'', versions = [sample_entry]\<rparr>
   \<and> status sample_entry = ''PENDING''
   \<and> get_manifest (snd (process_and_update_manifest (sample_env (Inl [])) sample_clock
          (sample_world []) ''docs'' ''v1'' ''sample.txt'' ''id-1'')) ''docs''
     = Inr \<lparr>dataset_id = ''docs'', versions = [sample_entry\<lparr>status := ''FAILED'', error := Some []\<rparr>]\<rparr>
   \<and> fst (process_and_update_manifest (sample_env (Inr [\<lparr>page_content = ''a'', metadata = []\<rparr>]))
          sample_clock (sample_world [Some (AfterOpen ''No space left on device''
             ''Expecting value: line 1 column 1 (char 0)'')]) ''docs'' ''v1'' ''sample.txt'' ''id-1'')
     = Inl ''Expecting value: line 1 column 1 (char 0)''
   \<and> get_manifest (snd (process_and_update_manifest
          (sample_env (Inr [\<lparr>page_content = ''a'', metadata = []\<rparr>]))
          sample_clock (sample_world [Some (AfterOpen ''No space left on device''
             ''Expecting value: line 1 column 1 (char 0)'')]) ''docs'' ''v1'' ''sample.txt'' ''id-1''))
          ''docs''
     = Inl ''Expecting value: line 1 column 1 (char 0)''"
  by (simp add: process_and_update_manifest_def try_block_def pipeline_def sample_env_def
      sample_encode_def create_or_load_index_def SimpleInMemoryIndex_init_def embed_texts_def
      put_manifest_def put_manifest_local_def sample_world_def
      get_manifest_def get_manifest_local_def set_failed_def sample_entry_def)

end
